theory Spec2Isabelle
  imports Complex_Main "HOL-Library.Multiset" "HOL-Library.Word"
begin

section \<open>Streaming risk-scoring core of the betting-app fraud detection suite\<close>

text \<open>
  The development embeds the scoring functions of
  \<^verbatim>\<open>src/test/utils/real-time-monitor.js\<close>,
  \<^verbatim>\<open>src/test/utils/network-analyzer.js\<close> and
  \<^verbatim>\<open>src/test/utils/behavioral-biometrics.js\<close>.
  JavaScript numbers that carry scores, weights and amounts are modelled as
  \<^typ>\<open>real\<close>; millisecond timestamps as \<^typ>\<open>int\<close>; counters and lengths as
  \<^typ>\<open>nat\<close>. A \<^verbatim>\<open>Map\<close> is a partial function or, where iteration order is
  used, an association list in insertion order. Mutation of \<^verbatim>\<open>this\<close> is
  explicit state passing.
\<close>

subsection \<open>Network analyzer: category risk and network risk score\<close>

text \<open>
  One entry of \<^verbatim>\<open>fraudIndicators\<close>. A field that the JavaScript tests for
  truthiness is a \<^typ>\<open>bool\<close>; a numeric field that may be absent is an option
  (a comparison with \<^verbatim>\<open>undefined\<close> is false); \<^verbatim>\<open>spoofingIndicators\<close> is an
  optional array.
\<close>

record indicators =
  isSharedIP :: bool
  isProxy :: bool
  isVPN :: bool
  isTor :: bool
  sharedUsers :: "real option"
  automationSigns :: bool
  spoofingIndicators :: "string list option"
  impossibleTravel :: bool
  rapidMovement :: bool
  isCoordinated :: bool
  coordinationScore :: "real option"

text \<open>\<^verbatim>\<open>x > c\<close> for a possibly absent number \<^verbatim>\<open>x\<close>.\<close>

definition gt_opt :: "real option \<Rightarrow> real \<Rightarrow> bool" where
  "gt_opt x c = (case x of None \<Rightarrow> False | Some v \<Rightarrow> v > c)"

text \<open>
  \<^verbatim>\<open>calculateCategoryRisk(indicators)\<close>, lines 572--597 of the network analyzer.
  The argument is \<open>None\<close> when the JavaScript value is not an object.
\<close>

definition calculateCategoryRisk :: "indicators option \<Rightarrow> real" where
  "calculateCategoryRisk inds =
     (case inds of
        None \<Rightarrow> 0
      | Some i \<Rightarrow>
          (let risk = 0;
               risk = (if isSharedIP i then risk + 0.3 else risk);
               risk = (if isProxy i then risk + 0.4 else risk);
               risk = (if isVPN i then risk + 0.3 else risk);
               risk = (if isTor i then risk + 0.8 else risk);
               risk = (if gt_opt (sharedUsers i) 5 then risk + 0.4 else risk);
               risk = (if automationSigns i then risk + 0.6 else risk);
               risk = (if (case spoofingIndicators i of None \<Rightarrow> False | Some xs \<Rightarrow> length xs > 0)
                       then risk + 0.5 else risk);
               risk = (if impossibleTravel i then risk + 0.8 else risk);
               risk = (if rapidMovement i then risk + 0.4 else risk);
               risk = (if isCoordinated i then risk + 0.7 else risk);
               risk = (if gt_opt (coordinationScore i) 0.5
                       then risk + the (coordinationScore i) * 0.5 else risk)
           in min risk 1))"

text \<open>
  The \<^verbatim>\<open>weights\<close> table of \<^verbatim>\<open>calculateNetworkRiskScore\<close> together with the
  fallback \<^verbatim>\<open>weights[category] || 0.1\<close>. Category names are the own keys of the
  table or any other name that is not inherited from \<^verbatim>\<open>Object.prototype\<close>.
\<close>

definition weights :: "string \<Rightarrow> real" where
  "weights category =
     (if category = ''ipAnalysis'' then 0.25
      else if category = ''deviceAnalysis'' then 0.2
      else if category = ''proxyVPN'' then 0.2
      else if category = ''geolocation'' then 0.15
      else if category = ''coordination'' then 0.2
      else 0.1)"

text \<open>
  The \<^verbatim>\<open>for (const [category, indicators] of Object.entries(fraudIndicators))\<close>
  loop, with the two accumulators \<^verbatim>\<open>riskScore\<close> and \<^verbatim>\<open>weightSum\<close>.
\<close>

fun networkRiskLoop :: "(string \<times> indicators option) list \<Rightarrow> real \<times> real \<Rightarrow> real \<times> real" where
  "networkRiskLoop [] acc = acc"
| "networkRiskLoop ((category, inds) # rest) (riskScore, weightSum) =
     (let weight = weights category;
          categoryRisk = calculateCategoryRisk inds
      in networkRiskLoop rest (riskScore + categoryRisk * weight, weightSum + weight))"

definition calculateNetworkRiskScore :: "(string \<times> indicators option) list \<Rightarrow> real" where
  "calculateNetworkRiskScore fraudIndicators =
     (let (riskScore, weightSum) = networkRiskLoop fraudIndicators (0, 0)
      in if weightSum > 0 then riskScore / weightSum else 0)"

subsection \<open>Biometrics: authenticity decision\<close>

datatype confidence = high | medium

record authenticity =
  authentic :: bool
  confidence :: "confidence option"
  reason :: "string option"

text \<open>
  \<^verbatim>\<open>determineAuthenticity(compositeBiometricScore)\<close>, lines 493--503 of the
  biometrics analyzer. The score is \<open>None\<close> for \<^verbatim>\<open>null\<close> (no valid analysis);
  \<^verbatim>\<open>!compositeBiometricScore\<close> is true for \<^verbatim>\<open>null\<close> and for the number 0.
\<close>

definition determineAuthenticity :: "real \<Rightarrow> real option \<Rightarrow> authenticity" where
  "determineAuthenticity similarityThreshold compositeBiometricScore =
     (case compositeBiometricScore of
        None \<Rightarrow> \<lparr>authentic = False, confidence = None, reason = Some ''insufficient_data''\<rparr>
      | Some s \<Rightarrow>
          if s = 0 then \<lparr>authentic = False, confidence = None, reason = Some ''insufficient_data''\<rparr>
          else if s \<ge> similarityThreshold then
            \<lparr>authentic = True, confidence = Some high, reason = None\<rparr>
          else if s \<ge> similarityThreshold - 0.2 then
            \<lparr>authentic = True, confidence = Some medium, reason = None\<rparr>
          else \<lparr>authentic = False, confidence = Some high, reason = None\<rparr>)"

subsection \<open>Biometrics: similarity of metric records\<close>









subsection \<open>Real-time monitor: data\<close>

text \<open>
  An event of the feed. \<^verbatim>\<open>event.type\<close> is the field \<open>etype\<close>. A missing
  \<^verbatim>\<open>timestamp\<close> is 0 and a missing \<^verbatim>\<open>eventId\<close> is the empty string: both
  are falsy, and \<^verbatim>\<open>processIncomingEvent\<close> replaces exactly the falsy values. The
  payload fields depend on the type and are optional.
\<close>

record event =
  eventId :: string
  userId :: string
  etype :: string
  timestamp :: int
  amount :: "real option"
  loginAttempts :: "real option"
  previousLocation :: "string option"
  currentLocation :: "string option"
  previousDevice :: "string option"
  currentDevice :: "string option"

datatype actionDetail =
    BetAmount "real option"
  | FromTo "string option" "string option"
  | Attempts "real option"

record suspiciousAction =
  actionType :: string
  actionDetail :: actionDetail
  actionTimestamp :: int

record behaviorMetrics =
  bettingVelocity :: nat
  locationChanges :: nat
  deviceSwitches :: nat
  patternDeviations :: nat
  suspiciousActions :: "suspiciousAction list"

record userProfile =
  profileUserId :: string
  firstSeen :: int
  lastActivity :: int
  eventCount :: nat
  behaviorMetrics :: behaviorMetrics
  riskHistory :: "(int \<times> real \<times> nat) list"

record riskFactor =
  factorType :: string
  factorValue :: nat
  impact :: string

record riskScoreEntry =
  score :: real
  scoreTimestamp :: int
  factors :: "riskFactor list"

record recommendation =
  action :: string
  priority :: string
  recReason :: string

record alert =
  alertId :: string
  alertTimestamp :: int
  alertUserId :: string
  alertRiskScore :: real
  alertEvent :: event
  severity :: string
  alertProfile :: "userProfile option"
  recommendations :: "recommendation list"

record config =
  alertThreshold :: real
  monitoringWindow :: int

text \<open>
  The constructor's \<^verbatim>\<open>{alertThreshold: config.alertThreshold || 0.7, ..., ...config}\<close>:
  the trailing spread writes a configured value back, so a key that is present wins
  and an absent key gets the default.
\<close>

definition mkConfig :: "real option \<Rightarrow> int option \<Rightarrow> config" where
  "mkConfig threshold window =
     \<lparr>alertThreshold = (case threshold of None \<Rightarrow> 0.7 | Some t \<Rightarrow> t),
      monitoringWindow = (case window of None \<Rightarrow> 300000 | Some w \<Rightarrow> w)\<rparr>"

text \<open>The mutable fields of \<^verbatim>\<open>RealTimeFraudMonitor\<close> that the scoring path uses.\<close>

record monitor =
  config :: config
  activeUsers :: "string \<rightharpoonup> userProfile"
  eventStream :: "event list"
  riskScores :: "string \<rightharpoonup> riskScoreEntry"
  alertQueue :: "alert list"
  processedEvents :: nat
  alertsSent :: nat

text \<open>
  What one call of \<^verbatim>\<open>processIncomingEvent\<close> reads from outside: the clock
  (\<^verbatim>\<open>Date.now()\<close>) when it stamps the event, when it trims the window and when it
  builds an alert, and the two generated identifiers.
\<close>

record env =
  nowIngest :: int
  nowWindow :: int
  nowAlert :: int
  freshEventId :: string
  freshAlertId :: string

subsection \<open>Real-time monitor: profile update\<close>

definition maintainSlidingWindow :: "int \<Rightarrow> monitor \<Rightarrow> monitor" where
  "maintainSlidingWindow now m =
     (let cutoff = now - monitoringWindow (config m)
      in m\<lparr>eventStream := filter (\<lambda>e. timestamp e > cutoff) (eventStream m)\<rparr>)"

definition calculateBettingVelocity :: "monitor \<Rightarrow> userProfile \<Rightarrow> event \<Rightarrow> nat" where
  "calculateBettingVelocity m userProfile event =
     (if etype event \<noteq> ''bet_placed'' then bettingVelocity (behaviorMetrics userProfile)
      else
        (let timeWindow = 60000;
             recentBets = filter (\<lambda>e. userId e = profileUserId userProfile \<and>
                                       etype e = ''bet_placed'' \<and>
                                       timestamp e > timestamp event - timeWindow)
                            (eventStream m)
         in length recentBets))"

text \<open>
  \<^verbatim>\<open>.sort((a, b) => b.timestamp - a.timestamp)[1]\<close>: a stable sort by descending
  timestamp, then the second element, \<^verbatim>\<open>undefined\<close> when there is none.
\<close>

definition isRapidLocationChange :: "monitor \<Rightarrow> userProfile \<Rightarrow> event \<Rightarrow> bool" where
  "isRapidLocationChange m userProfile event =
     (case sort_key (\<lambda>e. - timestamp e)
             (filter (\<lambda>e. userId e = profileUserId userProfile \<and> etype e = ''location_change'')
                (eventStream m)) of
        first # lastLocationChange # others \<Rightarrow>
          timestamp event - timestamp lastLocationChange < 300000
      | _ \<Rightarrow> False)"

definition pushAction :: "suspiciousAction \<Rightarrow> behaviorMetrics \<Rightarrow> behaviorMetrics" where
  "pushAction a metrics = metrics\<lparr>suspiciousActions := suspiciousActions metrics @ [a]\<rparr>"

text \<open>\<^verbatim>\<open>updateBehaviorMetrics(userProfile, event)\<close>, lines 198--251.\<close>

definition updateBehaviorMetrics :: "monitor \<Rightarrow> userProfile \<Rightarrow> event \<Rightarrow> userProfile" where
  "updateBehaviorMetrics m userProfile event =
     (let metrics = behaviorMetrics userProfile;
          metrics =
            (if etype event = ''bet_placed'' then
               (let metrics = metrics\<lparr>bettingVelocity :=
                                 calculateBettingVelocity m userProfile event\<rparr>
                in if gt_opt (amount event) 1000
                   then pushAction \<lparr>actionType = ''high_value_bet'',
                                    actionDetail = BetAmount (amount event),
                                    actionTimestamp = timestamp event\<rparr> metrics
                   else metrics)
             else if etype event = ''location_change'' then
               (let metrics = metrics\<lparr>locationChanges := locationChanges metrics + 1\<rparr>
                in if isRapidLocationChange m userProfile event
                   then pushAction \<lparr>actionType = ''rapid_location_change'',
                                    actionDetail = FromTo (previousLocation event) (currentLocation event),
                                    actionTimestamp = timestamp event\<rparr> metrics
                   else metrics)
             else if etype event = ''device_switch'' then
               pushAction \<lparr>actionType = ''device_switch'',
                           actionDetail = FromTo (previousDevice event) (currentDevice event),
                           actionTimestamp = timestamp event\<rparr>
                 (metrics\<lparr>deviceSwitches := deviceSwitches metrics + 1\<rparr>)
             else if etype event = ''login'' then
               (if gt_opt (loginAttempts event) 3
                then pushAction \<lparr>actionType = ''multiple_login_attempts'',
                                 actionDetail = Attempts (loginAttempts event),
                                 actionTimestamp = timestamp event\<rparr> metrics
                else metrics)
             else metrics);
          dayAgo = timestamp event - (24 * 60 * 60 * 1000);
          metrics = metrics\<lparr>suspiciousActions :=
                      filter (\<lambda>action. actionTimestamp action > dayAgo) (suspiciousActions metrics)\<rparr>
      in userProfile\<lparr>behaviorMetrics := metrics\<rparr>)"

definition newProfile :: "event \<Rightarrow> userProfile" where
  "newProfile event =
     \<lparr>profileUserId = userId event, firstSeen = timestamp event, lastActivity = timestamp event,
      eventCount = 0,
      behaviorMetrics = \<lparr>bettingVelocity = 0, locationChanges = 0, deviceSwitches = 0,
                          patternDeviations = 0, suspiciousActions = []\<rparr>,
      riskHistory = []\<rparr>"

text \<open>\<^verbatim>\<open>updateUserBehavior(event)\<close>, lines 164--193.\<close>

definition updateUserBehavior :: "monitor \<Rightarrow> event \<Rightarrow> monitor" where
  "updateUserBehavior m event =
     (let m = (if activeUsers m (userId event) = None
               then m\<lparr>activeUsers := (activeUsers m)(userId event \<mapsto> newProfile event)\<rparr>
               else m);
          userProfile = the (activeUsers m (userId event));
          userProfile = userProfile\<lparr>lastActivity := timestamp event,
                                     eventCount := eventCount userProfile + 1\<rparr>;
          userProfile = updateBehaviorMetrics m userProfile event
      in m\<lparr>activeUsers := (activeUsers m)(userId event \<mapsto> userProfile)\<rparr>)"

subsection \<open>Real-time monitor: risk calculators and composite score\<close>

text \<open>A calculator result \<^verbatim>\<open>{ risk, weight }\<close> is the pair \<open>(risk, weight)\<close>.\<close>

definition calculateVelocityRisk :: "monitor \<Rightarrow> event \<Rightarrow> real \<times> real" where
  "calculateVelocityRisk m event =
     (case activeUsers m (userId event) of
        None \<Rightarrow> (0, 1)
      | Some userProfile \<Rightarrow>
          (let timeWindow = 60000;
               recentEvents = filter (\<lambda>e. userId e = userId event \<and>
                                           timestamp e > timestamp event - timeWindow)
                                (eventStream m);
               velocity = length recentEvents;
               maxNormalVelocity = 10;
               risk = min (real velocity / maxNormalVelocity) 1
           in (risk, 0.25)))"

definition calculatePatternRisk :: "monitor \<Rightarrow> event \<Rightarrow> real \<times> real" where
  "calculatePatternRisk m event =
     (case activeUsers m (userId event) of
        None \<Rightarrow> (0, 1)
      | Some userProfile \<Rightarrow>
          (let suspiciousActionCount = length (suspiciousActions (behaviorMetrics userProfile));
               risk = min (real suspiciousActionCount / 5) 1
           in (risk, 0.3)))"

definition calculateLocationRisk :: "monitor \<Rightarrow> event \<Rightarrow> real \<times> real" where
  "calculateLocationRisk m event =
     (if etype event \<noteq> ''location_change'' then (0, 1)
      else case activeUsers m (userId event) of
        None \<Rightarrow> (0, 1)
      | Some userProfile \<Rightarrow>
          (let risk = min (real (locationChanges (behaviorMetrics userProfile)) / 3) 1
           in (risk, 0.2)))"

definition calculateDeviceRisk :: "monitor \<Rightarrow> event \<Rightarrow> real \<times> real" where
  "calculateDeviceRisk m event =
     (case activeUsers m (userId event) of
        None \<Rightarrow> (0, 1)
      | Some userProfile \<Rightarrow>
          (let risk = min (real (deviceSwitches (behaviorMetrics userProfile)) / 2) 1
           in (risk, 0.15)))"

definition calculateBehaviorRisk :: "monitor \<Rightarrow> event \<Rightarrow> real \<times> real" where
  "calculateBehaviorRisk m event =
     (case activeUsers m (userId event) of
        None \<Rightarrow> (0, 1)
      | Some userProfile \<Rightarrow>
          (let risk = min (real (bettingVelocity (behaviorMetrics userProfile)) / 100) 1
           in (risk, 0.1)))"

text \<open>
  An entry of the \<^verbatim>\<open>riskCalculators\<close> map either returns its pair or throws; the
  exception is the left summand. The five registered calculators return on every
  state of the model; \<open>thrown\<close> is a calculator that throws, and \<open>outage\<close> replaces
  the entries whose name is down by it.
\<close>

datatype calcError = CalculatorThrew

type_synonym calculator = "monitor \<Rightarrow> event \<Rightarrow> calcError + real \<times> real"

definition riskCalculators :: "(string \<times> calculator) list" where
  "riskCalculators =
     [(''velocity'', \<lambda>m e. Inr (calculateVelocityRisk m e)),
      (''pattern'', \<lambda>m e. Inr (calculatePatternRisk m e)),
      (''location'', \<lambda>m e. Inr (calculateLocationRisk m e)),
      (''device'', \<lambda>m e. Inr (calculateDeviceRisk m e)),
      (''behavior'', \<lambda>m e. Inr (calculateBehaviorRisk m e))]"

definition thrown :: calculator where
  "thrown m e = Inl CalculatorThrew"

definition outage :: "(string \<Rightarrow> bool) \<Rightarrow> (string \<times> calculator) list \<Rightarrow> (string \<times> calculator) list" where
  "outage down calculators = map (\<lambda>(name, c). (name, if down name then thrown else c)) calculators"

definition getDetailedRiskFactors :: "monitor \<Rightarrow> event \<Rightarrow> riskFactor list" where
  "getDetailedRiskFactors m event =
     (case activeUsers m (userId event) of
        None \<Rightarrow> []
      | Some userProfile \<Rightarrow>
          (let metrics = behaviorMetrics userProfile in
             (if bettingVelocity metrics > 50
              then [\<lparr>factorType = ''high_betting_velocity'', factorValue = bettingVelocity metrics,
                      impact = ''high''\<rparr>] else []) @
             (if locationChanges metrics > 2
              then [\<lparr>factorType = ''multiple_location_changes'', factorValue = locationChanges metrics,
                      impact = ''medium''\<rparr>] else []) @
             (if deviceSwitches metrics > 1
              then [\<lparr>factorType = ''device_switching'', factorValue = deviceSwitches metrics,
                      impact = ''medium''\<rparr>] else []) @
             (if length (suspiciousActions metrics) > 3
              then [\<lparr>factorType = ''multiple_suspicious_actions'',
                      factorValue = length (suspiciousActions metrics), impact = ''high''\<rparr>] else [])))"

text \<open>
  The \<^verbatim>\<open>for (const [type, calculator] of this.riskCalculators)\<close> loop with its
  \<^verbatim>\<open>try\<close>/\<^verbatim>\<open>catch\<close>: a calculator that throws leaves both accumulators as
  they are.
\<close>

fun riskLoop :: "(string \<times> calculator) list \<Rightarrow> monitor \<Rightarrow> event \<Rightarrow> real \<times> real \<Rightarrow> real \<times> real" where
  "riskLoop [] m event acc = acc"
| "riskLoop ((name, calculator) # rest) m event (totalRisk, weightSum) =
     (case calculator m event of
        Inr (risk, weight) \<Rightarrow> riskLoop rest m event (totalRisk + risk * weight, weightSum + weight)
      | Inl error \<Rightarrow> riskLoop rest m event (totalRisk, weightSum))"

text \<open>
  \<^verbatim>\<open>calculateRealTimeRisk(event)\<close>, lines 256--281: the returned score and the
  monitor with the score stored in \<^verbatim>\<open>riskScores\<close>.
\<close>

definition calculateRealTimeRisk ::
  "(string \<times> calculator) list \<Rightarrow> monitor \<Rightarrow> event \<Rightarrow> real \<times> monitor" where
  "calculateRealTimeRisk calculators m event =
     (let (totalRisk, weightSum) = riskLoop calculators m event (0, 0);
          normalizedRisk = (if weightSum > 0 then totalRisk / weightSum else 0)
      in (normalizedRisk,
          m\<lparr>riskScores := (riskScores m)(userId event \<mapsto>
               \<lparr>score = normalizedRisk, scoreTimestamp = timestamp event,
                factors = getDetailedRiskFactors m event\<rparr>)\<rparr>))"

subsection \<open>Real-time monitor: alerts and the event pipeline\<close>

definition getSeverityLevel :: "real \<Rightarrow> string" where
  "getSeverityLevel riskScore =
     (if riskScore \<ge> 0.9 then ''critical''
      else if riskScore \<ge> 0.7 then ''high''
      else if riskScore \<ge> 0.5 then ''medium''
      else ''low'')"

definition generateRecommendations :: "event \<Rightarrow> real \<Rightarrow> recommendation list" where
  "generateRecommendations event riskScore =
     (if riskScore \<ge> 0.9 then
        [\<lparr>action = ''immediate_account_suspension'', priority = ''critical'',
          recReason = ''Extremely high fraud risk detected''\<rparr>]
      else if riskScore \<ge> 0.7 then
        [\<lparr>action = ''enhanced_monitoring'', priority = ''high'',
          recReason = ''High fraud risk - increase scrutiny''\<rparr>,
         \<lparr>action = ''manual_review'', priority = ''high'',
          recReason = ''Requires human analysis''\<rparr>]
      else if riskScore \<ge> 0.5 then
        [\<lparr>action = ''additional_verification'', priority = ''medium'',
          recReason = ''Medium risk - verify identity''\<rparr>]
      else [])"

text \<open>
  The synchronous part of \<^verbatim>\<open>triggerAlert\<close>: the alert record is built, pushed on
  the queue and counted before the first \<^verbatim>\<open>await\<close>.
\<close>

definition triggerAlert :: "env \<Rightarrow> monitor \<Rightarrow> event \<Rightarrow> real \<Rightarrow> monitor" where
  "triggerAlert environment m event riskScore =
     (let alert = \<lparr>alertId = freshAlertId environment,
                    alertTimestamp = nowAlert environment,
                    alertUserId = userId event,
                    alertRiskScore = riskScore,
                    alertEvent = event,
                    severity = getSeverityLevel riskScore,
                    alertProfile = activeUsers m (userId event),
                    recommendations = generateRecommendations event riskScore\<rparr>
      in m\<lparr>alertQueue := alertQueue m @ [alert], alertsSent := alertsSent m + 1\<rparr>)"

text \<open>Lines 126--127: the event with its timestamp and identifier filled in.\<close>

definition stamp :: "env \<Rightarrow> event \<Rightarrow> event" where
  "stamp environment event =
     event\<lparr>timestamp := (if timestamp event = 0 then nowIngest environment else timestamp event),
           eventId := (if eventId event = [] then freshEventId environment else eventId event)\<rparr>"

text \<open>
  \<^verbatim>\<open>processIncomingEvent(event)\<close>, lines 123--159: the new monitor and the risk
  score that is emitted with the \<^verbatim>\<open>fraudEvent\<close>.
\<close>

definition processIncomingEvent ::
  "(string \<times> calculator) list \<Rightarrow> env \<Rightarrow> monitor \<Rightarrow> event \<Rightarrow> monitor \<times> real" where
  "processIncomingEvent calculators environment m event =
     (let event = stamp environment event;
          m = m\<lparr>eventStream := eventStream m @ [event], processedEvents := processedEvents m + 1\<rparr>;
          m = maintainSlidingWindow (nowWindow environment) m;
          m = updateUserBehavior m event;
          (riskScore, m) = calculateRealTimeRisk calculators m event;
          m = (if riskScore \<ge> alertThreshold (config m)
               then triggerAlert environment m event riskScore else m)
      in (m, riskScore))"

subsection \<open>Reference notions and sample states\<close>

text \<open>
  The results of the calculators that returned, in registration order, and the
  weight-normalised average of a list of \<open>(risk, weight)\<close> pairs, with the value 0 when
  the weights do not sum to a positive number.
\<close>

definition succeeded :: "(string \<times> calculator) list \<Rightarrow> monitor \<Rightarrow> event \<Rightarrow> (real \<times> real) list" where
  "succeeded calculators m event =
     List.map_filter (\<lambda>(name, c). case c m event of Inr rw \<Rightarrow> Some rw | Inl error \<Rightarrow> None) calculators"

definition weightedAverage :: "(real \<times> real) list \<Rightarrow> real" where
  "weightedAverage rws =
     (if (\<Sum>(risk, weight)\<leftarrow>rws. weight) > 0
      then (\<Sum>(risk, weight)\<leftarrow>rws. risk * weight) / (\<Sum>(risk, weight)\<leftarrow>rws. weight)
      else 0)"

text \<open>The monitor as the constructor leaves it, and an event without payload fields.\<close>

definition emptyMonitor :: "config \<Rightarrow> monitor" where
  "emptyMonitor cfg =
     \<lparr>config = cfg, activeUsers = Map.empty, eventStream = [], riskScores = Map.empty,
      alertQueue = [], processedEvents = 0, alertsSent = 0\<rparr>"

definition plainEvent :: "string \<Rightarrow> string \<Rightarrow> int \<Rightarrow> event" where
  "plainEvent user ty t =
     \<lparr>eventId = [], userId = user, etype = ty, timestamp = t, amount = None,
      loginAttempts = None, previousLocation = None, currentLocation = None,
      previousDevice = None, currentDevice = None\<rparr>"

text \<open>A clock and identifier supply, and a profile with a history of activity.\<close>

definition sampleEnv :: env where
  "sampleEnv = \<lparr>nowIngest = 1000, nowWindow = 1000, nowAlert = 1001,
                 freshEventId = ''evt_1'', freshAlertId = ''evt_2''\<rparr>"

definition sampleProfile :: userProfile where
  "sampleProfile =
     \<lparr>profileUserId = ''u'', firstSeen = 0, lastActivity = 500, eventCount = 40,
      behaviorMetrics =
        \<lparr>bettingVelocity = 25, locationChanges = 2, deviceSwitches = 2, patternDeviations = 0,
         suspiciousActions =
           replicate 5 \<lparr>actionType = ''device_switch'', actionDetail = FromTo None None,
                         actionTimestamp = 500\<rparr>\<rparr>,
      riskHistory = []\<rparr>"

text \<open>
  The first five steps of \<^verbatim>\<open>processIncomingEvent\<close>, up to the computed score:
  stamp, append, trim the window, update the profile, score.
\<close>

definition scored :: "(string \<times> calculator) list \<Rightarrow> env \<Rightarrow> monitor \<Rightarrow> event \<Rightarrow> real \<times> monitor" where
  "scored calculators environment m event =
     calculateRealTimeRisk calculators
       (updateUserBehavior
          (maintainSlidingWindow (nowWindow environment)
             (m\<lparr>eventStream := eventStream m @ [stamp environment event],
                processedEvents := processedEvents m + 1\<rparr>))
          (stamp environment event))
       (stamp environment event)"

text \<open>
  The count the specification describes for \<^verbatim>\<open>bettingVelocity\<close>: the user's
  \<^verbatim>\<open>bet_placed\<close> events of the store whose timestamp lies in the closed window
  from \<open>now - 60000\<close> to \<open>now\<close>.
\<close>

definition trailingWindowBets :: "event list \<Rightarrow> string \<Rightarrow> int \<Rightarrow> nat" where
  "trailingWindowBets store user now =
     length (filter (\<lambda>e. userId e = user \<and> etype e = ''bet_placed'' \<and>
                         now - 60000 \<le> timestamp e \<and> timestamp e \<le> now) store)"

subsection \<open>Network analyzer: fraud rings\<close>

text \<open>
  The two cluster maps in insertion order. A \<^verbatim>\<open>Set\<close> of user identifiers is the
  list of its members, its \<^verbatim>\<open>size\<close> the length. A ring record has the key of its
  cluster (\<^verbatim>\<open>ipAddress\<close> or \<^verbatim>\<open>fingerprint\<close>) in \<open>ringKey\<close>.
\<close>

record ipCluster =
  ipAddress :: string
  ipUsers :: "string list"
  ipFirstSeen :: int
  ipLastSeen :: int
  suspiciousActivity :: "string list"
  ipRiskScore :: real

record deviceFeature =
  featureType :: string
  feature :: string

record deviceProfile =
  fingerprint :: string
  deviceUsers :: "string list"
  deviceFirstSeen :: int
  deviceLastSeen :: int
  suspiciousFeatures :: "deviceFeature list"

datatype ringIndicators = ClusterIndicators "string list" | DeviceFeatures "deviceFeature list"

record fraudRing =
  ringType :: string
  ringKey :: string
  ringUsers :: "string list"
  ringRiskScore :: real
  ringIndicators :: ringIndicators

text \<open>
  \<^verbatim>\<open>minClusterSize: config.minClusterSize || 3\<close> followed by the spread of the
  configuration: a configured value wins, the default is 3.
\<close>

definition mkMinClusterSize :: "int option \<Rightarrow> int" where
  "mkMinClusterSize configured = (case configured of None \<Rightarrow> 3 | Some n \<Rightarrow> n)"

record networkAnalyzer =
  minClusterSize :: int
  ipClusters :: "(string \<times> ipCluster) list"
  deviceFingerprints :: "(string \<times> deviceProfile) list"

text \<open>The helpers of lines 720--726, as the source defines them.\<close>

definition analyzeClusterUsers :: "ipCluster \<Rightarrow> string list" where
  "analyzeClusterUsers cluster = []"

definition getClusterSuspiciousIndicators :: "ipCluster \<Rightarrow> string list" where
  "getClusterSuspiciousIndicators cluster = []"

definition analyzeDeviceUsers :: "deviceProfile \<Rightarrow> string list" where
  "analyzeDeviceUsers deviceProfile = []"

definition calculateDeviceClusterRisk :: "deviceProfile \<Rightarrow> real" where
  "calculateDeviceClusterRisk deviceProfile = 0"

definition detectBehavioralClusters :: "networkAnalyzer \<Rightarrow> fraudRing list" where
  "detectBehavioralClusters a = []"

text \<open>The two \<^verbatim>\<open>for\<close> loops of \<^verbatim>\<open>detectFraudRings\<close> over the cluster maps.\<close>

fun ipClusterLoop :: "int \<Rightarrow> (string \<times> ipCluster) list \<Rightarrow> fraudRing list \<Rightarrow> fraudRing list" where
  "ipClusterLoop minSize [] fraudRings = fraudRings"
| "ipClusterLoop minSize ((address, cluster) # rest) fraudRings =
     (if int (length (ipUsers cluster)) \<ge> minSize then
        (let suspiciousUsers = analyzeClusterUsers cluster
         in if int (length suspiciousUsers) \<ge> minSize
            then ipClusterLoop minSize rest
                   (fraudRings @ [\<lparr>ringType = ''ip_cluster'', ringKey = address,
                                   ringUsers = suspiciousUsers, ringRiskScore = ipRiskScore cluster,
                                   ringIndicators = ClusterIndicators (getClusterSuspiciousIndicators cluster)\<rparr>])
            else ipClusterLoop minSize rest fraudRings)
      else ipClusterLoop minSize rest fraudRings)"

fun deviceClusterLoop :: "int \<Rightarrow> (string \<times> deviceProfile) list \<Rightarrow> fraudRing list \<Rightarrow> fraudRing list" where
  "deviceClusterLoop minSize [] fraudRings = fraudRings"
| "deviceClusterLoop minSize ((fp, deviceProfile) # rest) fraudRings =
     (if int (length (deviceUsers deviceProfile)) \<ge> minSize then
        (let suspiciousUsers = analyzeDeviceUsers deviceProfile
         in if int (length suspiciousUsers) \<ge> minSize
            then deviceClusterLoop minSize rest
                   (fraudRings @ [\<lparr>ringType = ''device_cluster'', ringKey = fp,
                                   ringUsers = suspiciousUsers,
                                   ringRiskScore = calculateDeviceClusterRisk deviceProfile,
                                   ringIndicators = DeviceFeatures (suspiciousFeatures deviceProfile)\<rparr>])
            else deviceClusterLoop minSize rest fraudRings)
      else deviceClusterLoop minSize rest fraudRings)"

text \<open>\<^verbatim>\<open>detectFraudRings()\<close>, lines 327--371.\<close>

definition detectFraudRings :: "networkAnalyzer \<Rightarrow> fraudRing list" where
  "detectFraudRings a =
     (let fraudRings = [];
          fraudRings = ipClusterLoop (minClusterSize a) (ipClusters a) fraudRings;
          fraudRings = deviceClusterLoop (minClusterSize a) (deviceFingerprints a) fraudRings;
          behaviorClusters = detectBehavioralClusters a
      in fraudRings @ behaviorClusters)"

subsection \<open>Network analyzer: browser fingerprint\<close>





section \<open>Properties\<close>

subsection \<open>Network risk is a score in the unit interval\<close>

lemma step_nonneg:
  fixes r v :: real
  shows "0 \<le> r \<Longrightarrow> (c \<Longrightarrow> 0 \<le> v) \<Longrightarrow> 0 \<le> (if c then r + v else r)"
  by simp

lemma Let_nonneg:
  fixes a :: real and f :: "real \<Rightarrow> real"
  shows "0 \<le> a \<Longrightarrow> (\<And>x. 0 \<le> x \<Longrightarrow> 0 \<le> f x) \<Longrightarrow> 0 \<le> Let a f"
  by simp

lemma Let_le_one:
  fixes f :: "real \<Rightarrow> real"
  shows "(\<And>x. f x \<le> 1) \<Longrightarrow> Let a f \<le> 1"
  by simp

text \<open>
  Every statement of the body keeps the running \<^verbatim>\<open>risk\<close> non-negative, so the
  bound is proved statement by statement rather than by splitting all branches.
\<close>

lemma calculateCategoryRisk_nonneg: "0 \<le> calculateCategoryRisk inds"
proof (cases inds)
  case None
  then show ?thesis by (simp add: calculateCategoryRisk_def)
next
  case (Some i)
  have cs: "gt_opt (coordinationScore i) 0.5 \<Longrightarrow> 0 \<le> the (coordinationScore i) * 0.5"
    by (cases "coordinationScore i") (simp_all add: gt_opt_def)
  have m: "\<And>x::real. 0 \<le> x \<Longrightarrow> 0 \<le> min x 1" by simp
  show ?thesis
    unfolding calculateCategoryRisk_def Some option.case
    by (intro Let_nonneg step_nonneg m cs order_refl; (assumption | simp))
qed

lemma calculateCategoryRisk_le_one: "calculateCategoryRisk inds \<le> 1"
proof (cases inds)
  case None
  then show ?thesis by (simp add: calculateCategoryRisk_def)
next
  case (Some i)
  have m: "\<And>x::real. min x 1 \<le> 1" by simp
  show ?thesis
    unfolding calculateCategoryRisk_def Some option.case
    by (intro Let_le_one m)
qed

lemma weights_pos: "0 < weights category"
  by (simp add: weights_def)

lemma networkRiskLoop_inv:
  "0 \<le> r \<Longrightarrow> r \<le> w \<Longrightarrow> networkRiskLoop xs (r, w) = (r', w') \<Longrightarrow> 0 \<le> r' \<and> r' \<le> w'"
proof (induction xs arbitrary: r w)
  case Nil
  then show ?case by simp
next
  case (Cons x xs)
  obtain category inds where x: "x = (category, inds)" by (cases x)
  let ?cw = "calculateCategoryRisk inds * weights category"
  have lo: "0 \<le> ?cw"
    using calculateCategoryRisk_nonneg [of inds] weights_pos [of category] by simp
  have hi: "?cw \<le> weights category"
    using calculateCategoryRisk_le_one [of inds] weights_pos [of category]
    by (simp add: mult_left_le_one_le)
  have "networkRiskLoop xs (r + ?cw, w + weights category) = (r', w')"
    using Cons.prems(3) by (simp add: x Let_def)
  moreover have "0 \<le> r + ?cw" using Cons.prems(1) lo by simp
  moreover have "r + ?cw \<le> w + weights category" using Cons.prems(2) hi by simp
  ultimately show ?case using Cons.IH by blast
qed

text \<open>
  Claim C10. For every indicators input \<^verbatim>\<open>calculateCategoryRisk\<close> returns a value
  in the unit interval (the additive contributions are capped at 1), and
  \<^verbatim>\<open>calculateNetworkRiskScore\<close>, the weight-normalised combination of the category
  risks, returns a value in the unit interval for every input.
\<close>

theorem network_risk_in_unit_interval:
  "0 \<le> calculateCategoryRisk inds \<and> calculateCategoryRisk inds \<le> 1 \<and>
   0 \<le> calculateNetworkRiskScore fraudIndicators \<and>
   calculateNetworkRiskScore fraudIndicators \<le> 1"
proof -
  obtain r w where rw: "networkRiskLoop fraudIndicators (0, 0) = (r, w)"
    by (cases "networkRiskLoop fraudIndicators (0, 0)")
  have inv: "0 \<le> r \<and> r \<le> w"
    using networkRiskLoop_inv [of 0 0 fraudIndicators r w] rw by simp
  have "0 \<le> calculateNetworkRiskScore fraudIndicators"
    using inv by (simp add: calculateNetworkRiskScore_def rw)
  moreover have "calculateNetworkRiskScore fraudIndicators \<le> 1"
    using inv by (simp add: calculateNetworkRiskScore_def rw)
  ultimately show ?thesis
    using calculateCategoryRisk_nonneg calculateCategoryRisk_le_one by blast
qed

text \<open>An instance: a Tor exit node with impossible travel saturates the category risk.\<close>

theorem network_risk_in_unit_interval_witness:
  "calculateCategoryRisk (Some \<lparr>isSharedIP = False, isProxy = False, isVPN = False, isTor = True,
      sharedUsers = None, automationSigns = False, spoofingIndicators = None,
      impossibleTravel = True, rapidMovement = False, isCoordinated = False,
      coordinationScore = None\<rparr>) = 1 \<and>
   0 \<le> calculateNetworkRiskScore [(''ipAnalysis'', None)] \<and>
   calculateNetworkRiskScore [(''ipAnalysis'', None)] \<le> 1"
  using network_risk_in_unit_interval [of None "[(''ipAnalysis'', None)]"]
  by (simp add: calculateCategoryRisk_def gt_opt_def)

subsection \<open>Authenticity bands\<close>

text \<open>
  Claim C7, as the code decides it. A score that is \<^verbatim>\<open>null\<close> or exactly 0 is
  reported as not authentic with reason \<^verbatim>\<open>insufficient_data\<close> and no confidence.
  For every other score \<open>s\<close>: authentic with high confidence when
  \<open>s \<ge> similarityThreshold\<close>, authentic with medium confidence when
  \<open>similarityThreshold - 0.2 \<le> s < similarityThreshold\<close>, and not authentic with high
  confidence when \<open>s < similarityThreshold - 0.2\<close>.
\<close>

theorem determineAuthenticity_bands:
  "determineAuthenticity thr None =
     \<lparr>authentic = False, confidence = None, reason = Some ''insufficient_data''\<rparr> \<and>
   determineAuthenticity thr (Some 0) =
     \<lparr>authentic = False, confidence = None, reason = Some ''insufficient_data''\<rparr> \<and>
   (s \<noteq> 0 \<longrightarrow>
      (thr \<le> s \<longrightarrow> determineAuthenticity thr (Some s) =
         \<lparr>authentic = True, confidence = Some high, reason = None\<rparr>) \<and>
      (thr - 0.2 \<le> s \<and> s < thr \<longrightarrow> determineAuthenticity thr (Some s) =
         \<lparr>authentic = True, confidence = Some medium, reason = None\<rparr>) \<and>
      (s < thr - 0.2 \<longrightarrow> determineAuthenticity thr (Some s) =
         \<lparr>authentic = False, confidence = Some high, reason = None\<rparr>))"
  by (simp add: determineAuthenticity_def)

text \<open>With the default threshold 0.85, the scores 0.9, 0.7 and 0.3 fall in the three bands.\<close>

theorem determineAuthenticity_bands_witness:
  "determineAuthenticity 0.85 (Some 0.7) =
     \<lparr>authentic = True, confidence = Some medium, reason = None\<rparr> \<and>
   determineAuthenticity 0.85 (Some 0) =
     \<lparr>authentic = False, confidence = None, reason = Some ''insufficient_data''\<rparr>"
  using determineAuthenticity_bands [of "0.85" "0.7"] by simp

text \<open>
  The banding as claimed for every score fails at \<open>s = 0\<close>: with the default threshold
  0.85 the score 0 lies below \<open>0.85 - 0.2\<close>, yet the decision carries no confidence and
  the reason \<^verbatim>\<open>insufficient_data\<close>.
\<close>

theorem determineAuthenticity_zero_counterexample:
  "(0::real) < 0.85 - 0.2 \<and>
   determineAuthenticity 0.85 (Some 0) \<noteq>
     \<lparr>authentic = False, confidence = Some high, reason = None\<rparr> \<and>
   confidence (determineAuthenticity 0.85 (Some 0)) = None"
  by (simp add: determineAuthenticity_def)

subsection \<open>Similarity of metric records\<close>












subsection \<open>Composite risk score\<close>

lemma succeeded_Cons:
  "succeeded ((name, c) # rest) m e =
     (case c m e of Inr rw \<Rightarrow> rw # succeeded rest m e | Inl error \<Rightarrow> succeeded rest m e)"
  by (simp add: succeeded_def map_filter_simps split: sum.splits)

lemma succeeded_Nil: "succeeded [] m e = []"
  by (simp add: succeeded_def map_filter_simps)

lemma riskLoop_sums:
  "riskLoop cs m e (t, w) =
     (t + (\<Sum>(risk, weight)\<leftarrow>succeeded cs m e. risk * weight),
      w + (\<Sum>(risk, weight)\<leftarrow>succeeded cs m e. weight))"
proof (induction cs arbitrary: t w)
  case Nil
  then show ?case by (simp add: succeeded_Nil)
next
  case (Cons x cs)
  obtain name c where x: "x = (name, c)" by (cases x)
  show ?case
  proof (cases "c m e")
    case (Inl err)
    then show ?thesis using Cons.IH by (simp add: x succeeded_Cons)
  next
    case (Inr rw)
    obtain r wt where rw: "rw = (r, wt)" by (cases rw)
    show ?thesis using Cons.IH Inr by (simp add: x rw succeeded_Cons add.assoc)
  qed
qed

lemma calculateRealTimeRisk_score:
  "fst (calculateRealTimeRisk cs m e) = weightedAverage (succeeded cs m e)"
  by (simp add: calculateRealTimeRisk_def riskLoop_sums weightedAverage_def Let_def)

lemma succeeded_outage:
  "succeeded (outage down cs) m e = succeeded (filter (\<lambda>(name, c). \<not> down name) cs) m e"
proof (induction cs)
  case Nil
  then show ?case by (simp add: outage_def)
next
  case (Cons x cs)
  obtain name c where x: "x = (name, c)" by (cases x)
  have o: "outage down ((name, c) # cs) = (name, if down name then thrown else c) # outage down cs"
    by (simp add: outage_def)
  show ?case using Cons.IH
    by (cases "down name") (simp_all add: o x succeeded_Cons thrown_def split: sum.splits)
qed

lemma weightedAverage_unit:
  assumes "list_all (\<lambda>(risk, weight). 0 \<le> risk \<and> risk \<le> 1 \<and> 0 \<le> weight) rws"
  shows "0 \<le> weightedAverage rws \<and> weightedAverage rws \<le> 1"
proof -
  have "0 \<le> (\<Sum>(risk, weight)\<leftarrow>rws. risk * weight) \<and>
        (\<Sum>(risk, weight)\<leftarrow>rws. risk * weight) \<le> (\<Sum>(risk, weight)\<leftarrow>rws. weight)"
    using assms
  proof (induction rws)
    case Nil
    then show ?case by simp
  next
    case (Cons a rws)
    obtain r w where a: "a = (r, w)" by (cases a)
    have "0 \<le> r * w" "r * w \<le> w"
      using Cons.prems by (simp_all add: a mult_left_le_one_le)
    then show ?case using Cons by (simp add: a)
  qed
  then show ?thesis by (simp add: weightedAverage_def)
qed

lemma calculators_unit:
  "0 \<le> fst (calculateVelocityRisk m e) \<and> fst (calculateVelocityRisk m e) \<le> 1 \<and> 0 \<le> snd (calculateVelocityRisk m e)"
  "0 \<le> fst (calculatePatternRisk m e) \<and> fst (calculatePatternRisk m e) \<le> 1 \<and> 0 \<le> snd (calculatePatternRisk m e)"
  "0 \<le> fst (calculateLocationRisk m e) \<and> fst (calculateLocationRisk m e) \<le> 1 \<and> 0 \<le> snd (calculateLocationRisk m e)"
  "0 \<le> fst (calculateDeviceRisk m e) \<and> fst (calculateDeviceRisk m e) \<le> 1 \<and> 0 \<le> snd (calculateDeviceRisk m e)"
  "0 \<le> fst (calculateBehaviorRisk m e) \<and> fst (calculateBehaviorRisk m e) \<le> 1 \<and> 0 \<le> snd (calculateBehaviorRisk m e)"
  by (simp_all add: calculateVelocityRisk_def calculatePatternRisk_def calculateLocationRisk_def
      calculateDeviceRisk_def calculateBehaviorRisk_def Let_def split: option.splits)

lemma succeeded_riskCalculators_unit:
  "list_all (\<lambda>(risk, weight). 0 \<le> risk \<and> risk \<le> 1 \<and> 0 \<le> weight)
     (succeeded (filter (\<lambda>(name, c). \<not> down name) riskCalculators) m e)"
  using calculators_unit [of m e]
  by (simp add: riskCalculators_def succeeded_Cons succeeded_Nil split_beta)


text \<open>
  Claim C1, as the code computes it. The composite score returned by
  \<^verbatim>\<open>calculateRealTimeRisk\<close> is the weight-normalised average of the pairs of exactly
  the calculators that did not throw; a calculator that throws contributes neither risk
  nor weight. With the monitor's five calculators, any of them failing, the score lies in
  the unit interval; when all fail it is 0. The score is stored for the user with the
  event's timestamp and the risk factors; nothing else is recorded.
\<close>

theorem composite_risk_normalized:
  "fst (calculateRealTimeRisk calculators m event) = weightedAverage (succeeded calculators m event) \<and>
   succeeded (outage down calculators) m event =
     succeeded (filter (\<lambda>(name, c). \<not> down name) calculators) m event \<and>
   0 \<le> fst (calculateRealTimeRisk (outage down riskCalculators) m event) \<and>
   fst (calculateRealTimeRisk (outage down riskCalculators) m event) \<le> 1 \<and>
   fst (calculateRealTimeRisk (outage (\<lambda>name. True) riskCalculators) m event) = 0 \<and>
   riskScores (snd (calculateRealTimeRisk calculators m event)) (userId event) =
     Some \<lparr>score = fst (calculateRealTimeRisk calculators m event),
           scoreTimestamp = timestamp event, factors = getDetailedRiskFactors m event\<rparr>"
proof -
  have unit: "0 \<le> fst (calculateRealTimeRisk (outage down riskCalculators) m event) \<and>
        fst (calculateRealTimeRisk (outage down riskCalculators) m event) \<le> 1"
    unfolding calculateRealTimeRisk_score succeeded_outage
    by (rule weightedAverage_unit) (rule succeeded_riskCalculators_unit)
  have none: "fst (calculateRealTimeRisk (outage (\<lambda>name. True) riskCalculators) m event) = 0"
    unfolding calculateRealTimeRisk_score succeeded_outage
    by (simp add: succeeded_Nil weightedAverage_def)
  have stored: "riskScores (snd (calculateRealTimeRisk calculators m event)) (userId event) =
     Some \<lparr>score = fst (calculateRealTimeRisk calculators m event),
           scoreTimestamp = timestamp event, factors = getDetailedRiskFactors m event\<rparr>"
    by (simp add: calculateRealTimeRisk_def Let_def split_beta)
  show ?thesis
    using calculateRealTimeRisk_score succeeded_outage unit none stored by blast
qed

text \<open>
  A first location change of a user while the pattern calculator is down: velocity
  \<open>1/10\<close>, location \<open>1/3\<close>, device and behavior 0, over the weights
  \<open>0.25 + 0.2 + 0.15 + 0.1\<close>.
\<close>

theorem composite_risk_normalized_witness:
  "fst (calculateRealTimeRisk (outage (\<lambda>name. name = ''pattern'') riskCalculators)
         (updateUserBehavior
            ((emptyMonitor (mkConfig None None))
               \<lparr>eventStream := [plainEvent ''u'' ''location_change'' 1000]\<rparr>)
            (plainEvent ''u'' ''location_change'' 1000))
         (plainEvent ''u'' ''location_change'' 1000)) = 11 / 84"
  using composite_risk_normalized [of "outage (\<lambda>name. name = ''pattern'') riskCalculators"
      "updateUserBehavior
         ((emptyMonitor (mkConfig None None))
            \<lparr>eventStream := [plainEvent ''u'' ''location_change'' 1000]\<rparr>)
         (plainEvent ''u'' ''location_change'' 1000)"
      "plainEvent ''u'' ''location_change'' 1000"]
  by (simp add: weightedAverage_def succeeded_Cons succeeded_Nil outage_def riskCalculators_def
      thrown_def calculateVelocityRisk_def calculateLocationRisk_def calculateDeviceRisk_def
      calculateBehaviorRisk_def updateUserBehavior_def updateBehaviorMetrics_def emptyMonitor_def
      plainEvent_def newProfile_def isRapidLocationChange_def Let_def)

text \<open>
  No insufficient-data flag exists: for a known user without any activity, the call in
  which every calculator throws returns the same score, 0, and the same monitor (the
  same stored entry) as the call in which all five calculators succeed with zero risk.
\<close>

theorem no_insufficient_data_flag_counterexample:
  "calculateRealTimeRisk (outage (\<lambda>name. True) riskCalculators)
     ((emptyMonitor (mkConfig None None))
        \<lparr>activeUsers := [''u'' \<mapsto> newProfile (plainEvent ''u'' ''login'' 1000)]\<rparr>)
     (plainEvent ''u'' ''login'' 1000) =
   calculateRealTimeRisk riskCalculators
     ((emptyMonitor (mkConfig None None))
        \<lparr>activeUsers := [''u'' \<mapsto> newProfile (plainEvent ''u'' ''login'' 1000)]\<rparr>)
     (plainEvent ''u'' ''login'' 1000) \<and>
   fst (calculateRealTimeRisk riskCalculators
     ((emptyMonitor (mkConfig None None))
        \<lparr>activeUsers := [''u'' \<mapsto> newProfile (plainEvent ''u'' ''login'' 1000)]\<rparr>)
     (plainEvent ''u'' ''login'' 1000)) = 0"
  by (simp add: calculateRealTimeRisk_def outage_def riskCalculators_def thrown_def
      calculateVelocityRisk_def calculatePatternRisk_def calculateLocationRisk_def
      calculateDeviceRisk_def calculateBehaviorRisk_def emptyMonitor_def plainEvent_def
      newProfile_def Let_def)

subsection \<open>Profile update\<close>

lemma updateUserBehavior_profile:
  "activeUsers (updateUserBehavior m e) (userId e) =
     Some (updateBehaviorMetrics
             (if activeUsers m (userId e) = None
              then m\<lparr>activeUsers := (activeUsers m)(userId e \<mapsto> newProfile e)\<rparr> else m)
             ((case activeUsers m (userId e) of None \<Rightarrow> newProfile e | Some p \<Rightarrow> p)
                \<lparr>lastActivity := timestamp e,
                 eventCount := eventCount (case activeUsers m (userId e) of None \<Rightarrow> newProfile e | Some p \<Rightarrow> p) + 1\<rparr>)
             e)"
  by (cases "activeUsers m (userId e)") (simp_all add: updateUserBehavior_def Let_def)

lemma updateUserBehavior_others:
  "u \<noteq> userId e \<Longrightarrow> activeUsers (updateUserBehavior m e) u = activeUsers m u"
  by (simp add: updateUserBehavior_def Let_def)

subsection \<open>The five calculators\<close>

text \<open>
  Claim C2, as the code returns it. For a user with a profile, velocity, pattern, device
  and behavior return the stated risk with the weights 0.25, 0.30, 0.15 and 0.10, where
  velocity counts the user's stored events whose timestamp is greater than the event's
  timestamp minus 60000; location returns \<open>min (locationChanges / 3) 1\<close> with weight
  0.20 for a \<^verbatim>\<open>location_change\<close> event and risk 0 with weight 1 for any other
  type. For a user without a profile every calculator returns risk 0 with weight 1.
  After \<^verbatim>\<open>updateUserBehavior\<close> the event's user has a profile.
\<close>

theorem calculator_results:
  "(activeUsers m (userId event) = Some p \<longrightarrow>
      calculateVelocityRisk m event =
        (min (real (length (filter (\<lambda>e. userId e = userId event \<and>
                                         timestamp e > timestamp event - 60000) (eventStream m))) / 10) 1,
         0.25) \<and>
      calculatePatternRisk m event =
        (min (real (length (suspiciousActions (behaviorMetrics p))) / 5) 1, 0.3) \<and>
      calculateLocationRisk m event =
        (if etype event = ''location_change''
         then (min (real (locationChanges (behaviorMetrics p)) / 3) 1, 0.2) else (0, 1)) \<and>
      calculateDeviceRisk m event = (min (real (deviceSwitches (behaviorMetrics p)) / 2) 1, 0.15) \<and>
      calculateBehaviorRisk m event = (min (real (bettingVelocity (behaviorMetrics p)) / 100) 1, 0.1)) \<and>
   (activeUsers m (userId event) = None \<longrightarrow>
      calculateVelocityRisk m event = (0, 1) \<and> calculatePatternRisk m event = (0, 1) \<and>
      calculateLocationRisk m event = (0, 1) \<and> calculateDeviceRisk m event = (0, 1) \<and>
      calculateBehaviorRisk m event = (0, 1)) \<and>
   activeUsers (updateUserBehavior m event) (userId event) \<noteq> None"
  by (simp add: calculateVelocityRisk_def calculatePatternRisk_def calculateLocationRisk_def
      calculateDeviceRisk_def calculateBehaviorRisk_def Let_def updateUserBehavior_profile)

text \<open>
  A first bet of user \<open>u\<close>: velocity is \<open>1/10\<close> with weight 0.25, and for the unknown
  user \<open>v\<close> the pair is \<open>(0, 1)\<close>.
\<close>

theorem calculator_results_witness:
  "calculateVelocityRisk
     (updateUserBehavior
        ((emptyMonitor (mkConfig None None))\<lparr>eventStream := [plainEvent ''u'' ''bet_placed'' 1000]\<rparr>)
        (plainEvent ''u'' ''bet_placed'' 1000))
     (plainEvent ''u'' ''bet_placed'' 1000) = (1 / 10, 0.25) \<and>
   calculateVelocityRisk (emptyMonitor (mkConfig None None)) (plainEvent ''v'' ''bet_placed'' 1000) = (0, 1)"
  using calculator_results [of
      "updateUserBehavior
        ((emptyMonitor (mkConfig None None))\<lparr>eventStream := [plainEvent ''u'' ''bet_placed'' 1000]\<rparr>)
        (plainEvent ''u'' ''bet_placed'' 1000)"
      "plainEvent ''u'' ''bet_placed'' 1000"
      "the (activeUsers (updateUserBehavior
        ((emptyMonitor (mkConfig None None))\<lparr>eventStream := [plainEvent ''u'' ''bet_placed'' 1000]\<rparr>)
        (plainEvent ''u'' ''bet_placed'' 1000)) ''u'')"]
    calculator_results [of "emptyMonitor (mkConfig None None)" "plainEvent ''v'' ''bet_placed'' 1000"]
  by (simp add: updateUserBehavior_def updateBehaviorMetrics_def emptyMonitor_def
      plainEvent_def newProfile_def calculateBettingVelocity_def gt_opt_def Let_def)

text \<open>
  The stated weight is not returned for every input: after a bet of user \<open>u\<close> has been
  recorded, the location calculator answers that bet with weight 1, not 0.20.
\<close>

theorem location_weight_counterexample:
  "calculateLocationRisk
     (updateUserBehavior
        ((emptyMonitor (mkConfig None None))\<lparr>eventStream := [plainEvent ''u'' ''bet_placed'' 1000]\<rparr>)
        (plainEvent ''u'' ''bet_placed'' 1000))
     (plainEvent ''u'' ''bet_placed'' 1000) = (0, 1) \<and> (1::real) \<noteq> 0.2"
  by (simp add: calculateLocationRisk_def plainEvent_def)

subsection \<open>Eviction of suspicious actions\<close>

lemma updateBehaviorMetrics_recent:
  "list_all (\<lambda>a. actionTimestamp a > timestamp e - 86400000)
     (suspiciousActions (behaviorMetrics (updateBehaviorMetrics m p e)))"
  by (simp add: updateBehaviorMetrics_def Let_def list_all_iff)

text \<open>
  Claim C5, as the code evicts. After \<^verbatim>\<open>updateUserBehavior\<close> for an event, the
  profile of the event's user holds only suspicious actions whose timestamp is greater
  than the event's timestamp minus 24 hours; the profile of every other user is left as
  it was.
\<close>

theorem suspiciousActions_evicted:
  "(\<exists>p. activeUsers (updateUserBehavior m e) (userId e) = Some p \<and>
        list_all (\<lambda>a. actionTimestamp a > timestamp e - 86400000)
          (suspiciousActions (behaviorMetrics p))) \<and>
   (u \<noteq> userId e \<longrightarrow> activeUsers (updateUserBehavior m e) u = activeUsers m u)"
  using updateBehaviorMetrics_recent updateUserBehavior_others
  by (simp add: updateUserBehavior_profile)

text \<open>
  A device switch of user \<open>u\<close> a day after the five recorded actions: only the new
  action remains.
\<close>

theorem suspiciousActions_evicted_witness:
  "map actionTimestamp (suspiciousActions (behaviorMetrics (the (activeUsers
     (updateUserBehavior
        ((emptyMonitor (mkConfig None None))\<lparr>activeUsers := [''u'' \<mapsto> sampleProfile]\<rparr>)
        (plainEvent ''u'' ''device_switch'' 86400600)) ''u'')))) = [86400600]"
  using suspiciousActions_evicted [of
      "(emptyMonitor (mkConfig None None))\<lparr>activeUsers := [''u'' \<mapsto> sampleProfile]\<rparr>"
      "plainEvent ''u'' ''device_switch'' 86400600" "''v''"]
  by (simp add: updateUserBehavior_def updateBehaviorMetrics_def emptyMonitor_def
      plainEvent_def sampleProfile_def pushAction_def Let_def)

text \<open>
  The invariant does not reach other profiles: when user \<open>v\<close> logs in at time
  86400600, the five actions of user \<open>u\<close> with timestamp 500 stay in the profile of
  \<open>u\<close>, more than 24 hours older than the event.
\<close>

theorem other_profile_not_evicted_counterexample:
  "map actionTimestamp (suspiciousActions (behaviorMetrics (the (activeUsers
     (updateUserBehavior
        ((emptyMonitor (mkConfig None None))\<lparr>activeUsers := [''u'' \<mapsto> sampleProfile]\<rparr>)
        (plainEvent ''v'' ''login'' 86400600)) ''u'')))) = replicate 5 500 \<and>
   (500::int) \<le> 86400600 - 24 * 60 * 60 * 1000"
  by (simp add: updateUserBehavior_def updateBehaviorMetrics_def emptyMonitor_def
      plainEvent_def sampleProfile_def newProfile_def gt_opt_def Let_def)

subsection \<open>Alerts\<close>

lemma scored_config: "config (snd (scored calcs env m event)) = config m"
  by (simp add: scored_def calculateRealTimeRisk_def updateUserBehavior_def
      maintainSlidingWindow_def Let_def split_beta)

lemma scored_alerts:
  "alertQueue (snd (scored calcs env m event)) = alertQueue m"
  "alertsSent (snd (scored calcs env m event)) = alertsSent m"
  by (simp_all add: scored_def calculateRealTimeRisk_def updateUserBehavior_def
      maintainSlidingWindow_def Let_def split_beta)

lemma processIncomingEvent_scored:
  "processIncomingEvent calcs env m event =
     (if fst (scored calcs env m event) \<ge> alertThreshold (config m)
      then triggerAlert env (snd (scored calcs env m event)) (stamp env event)
             (fst (scored calcs env m event))
      else snd (scored calcs env m event),
      fst (scored calcs env m event))"
  using scored_config [of calcs env m event]
  by (simp add: processIncomingEvent_def scored_def Let_def split_beta)

lemma getSeverityLevel_bands:
  "(0.9 \<le> s \<longrightarrow> getSeverityLevel s = ''critical'') \<and>
   (0.7 \<le> s \<and> s < 0.9 \<longrightarrow> getSeverityLevel s = ''high'') \<and>
   (0.5 \<le> s \<and> s < 0.7 \<longrightarrow> getSeverityLevel s = ''medium'') \<and>
   (s < 0.5 \<longrightarrow> getSeverityLevel s = ''low'')"
  by (simp add: getSeverityLevel_def)

text \<open>
  Claim C4. Processing an event appends exactly one alert, carrying the computed
  composite score and the severity of that score, when the score is greater than or
  equal to the configured \<^verbatim>\<open>alertThreshold\<close> (0.7 when not configured), and leaves
  the alert queue unchanged when the score is below it. The severity bands include their
  lower bounds: from 0.9 critical, from 0.7 high, from 0.5 medium, below that low; the
  score 0.7 is high.
\<close>

theorem alert_iff_threshold:
  "snd (processIncomingEvent calcs env m event) = fst (scored calcs env m event) \<and>
   (alertThreshold (config m) \<le> snd (processIncomingEvent calcs env m event) \<longrightarrow>
      (\<exists>a. alertQueue (fst (processIncomingEvent calcs env m event)) = alertQueue m @ [a] \<and>
           alertRiskScore a = snd (processIncomingEvent calcs env m event) \<and>
           alertUserId a = userId event \<and>
           severity a = getSeverityLevel (snd (processIncomingEvent calcs env m event))) \<and>
      alertsSent (fst (processIncomingEvent calcs env m event)) = alertsSent m + 1) \<and>
   (snd (processIncomingEvent calcs env m event) < alertThreshold (config m) \<longrightarrow>
      alertQueue (fst (processIncomingEvent calcs env m event)) = alertQueue m \<and>
      alertsSent (fst (processIncomingEvent calcs env m event)) = alertsSent m) \<and>
   (0.9 \<le> s \<longrightarrow> getSeverityLevel s = ''critical'') \<and>
   (0.7 \<le> s \<and> s < 0.9 \<longrightarrow> getSeverityLevel s = ''high'') \<and>
   (0.5 \<le> s \<and> s < 0.7 \<longrightarrow> getSeverityLevel s = ''medium'') \<and>
   (s < 0.5 \<longrightarrow> getSeverityLevel s = ''low'') \<and>
   getSeverityLevel 0.7 = ''high'' \<and>
   alertThreshold (mkConfig None window) = 0.7"
proof -
  have stamp_user: "userId (stamp env event) = userId event"
    by (simp add: stamp_def)
  have fire: "alertThreshold (config m) \<le> snd (processIncomingEvent calcs env m event) \<longrightarrow>
      (\<exists>a. alertQueue (fst (processIncomingEvent calcs env m event)) = alertQueue m @ [a] \<and>
           alertRiskScore a = snd (processIncomingEvent calcs env m event) \<and>
           alertUserId a = userId event \<and>
           severity a = getSeverityLevel (snd (processIncomingEvent calcs env m event))) \<and>
      alertsSent (fst (processIncomingEvent calcs env m event)) = alertsSent m + 1"
    by (simp add: processIncomingEvent_scored triggerAlert_def scored_alerts stamp_user Let_def)
  have quiet: "snd (processIncomingEvent calcs env m event) < alertThreshold (config m) \<longrightarrow>
      alertQueue (fst (processIncomingEvent calcs env m event)) = alertQueue m \<and>
      alertsSent (fst (processIncomingEvent calcs env m event)) = alertsSent m"
    by (simp add: processIncomingEvent_scored scored_alerts)
  have score: "snd (processIncomingEvent calcs env m event) = fst (scored calcs env m event)"
    by (simp add: processIncomingEvent_scored)
  have dflt: "getSeverityLevel 0.7 = ''high'' \<and> alertThreshold (mkConfig None window) = 0.7"
    by (simp add: getSeverityLevel_def mkConfig_def)
  show ?thesis
    using fire quiet score dflt getSeverityLevel_bands [of s] by blast
qed

text \<open>
  A location change of a user whose profile gives the score exactly 0.7 with the default
  configuration: one alert, of severity high.
\<close>

theorem alert_iff_threshold_witness:
  "snd (processIncomingEvent riskCalculators sampleEnv
          ((emptyMonitor (mkConfig None None))\<lparr>activeUsers := [''u'' \<mapsto> sampleProfile]\<rparr>)
          (plainEvent ''u'' ''location_change'' 0)) = 0.7 \<and>
   map severity (alertQueue (fst (processIncomingEvent riskCalculators sampleEnv
          ((emptyMonitor (mkConfig None None))\<lparr>activeUsers := [''u'' \<mapsto> sampleProfile]\<rparr>)
          (plainEvent ''u'' ''location_change'' 0)))) = [''high'']"
proof -
  let ?m = "(emptyMonitor (mkConfig None None))\<lparr>activeUsers := [''u'' \<mapsto> sampleProfile]\<rparr>"
  let ?e = "plainEvent ''u'' ''location_change'' 0"
  let ?P = "processIncomingEvent riskCalculators sampleEnv ?m ?e"
  note T = alert_iff_threshold [of riskCalculators sampleEnv ?m ?e "0.7" None]
  have sc: "fst (scored riskCalculators sampleEnv ?m ?e) = 0.7"
    by (simp add: scored_def calculateRealTimeRisk_def riskCalculators_def
        calculateVelocityRisk_def calculatePatternRisk_def calculateLocationRisk_def
        calculateDeviceRisk_def calculateBehaviorRisk_def
        updateUserBehavior_def updateBehaviorMetrics_def maintainSlidingWindow_def stamp_def
        isRapidLocationChange_def emptyMonitor_def mkConfig_def
        plainEvent_def sampleProfile_def sampleEnv_def Let_def)
  have thr: "alertThreshold (config ?m) = 0.7" and q: "alertQueue ?m = []"
    by (simp_all add: emptyMonitor_def mkConfig_def)
  have r: "snd ?P = 0.7" using T sc by simp
  have "alertThreshold (config ?m) \<le> snd ?P" using thr r by simp
  with T [THEN conjunct2, THEN conjunct1]
  obtain a where a: "alertQueue (fst ?P) = alertQueue ?m @ [a]"
      "severity a = getSeverityLevel (snd ?P)"
    by blast
  have "getSeverityLevel 0.7 = ''high''" using T by blast
  then show ?thesis using a r q by simp
qed

subsection \<open>Betting velocity\<close>

lemma scored_store:
  "eventStream (snd (scored calcs env m event)) =
     filter (\<lambda>e. timestamp e > nowWindow env - monitoringWindow (config m))
       (eventStream m @ [stamp env event])"
  by (simp add: scored_def calculateRealTimeRisk_def updateUserBehavior_def
      maintainSlidingWindow_def Let_def split_beta)

lemma scored_users:
  "activeUsers (snd (scored calcs env m event)) =
     activeUsers (updateUserBehavior
          (maintainSlidingWindow (nowWindow env)
             (m\<lparr>eventStream := eventStream m @ [stamp env event],
                processedEvents := processedEvents m + 1\<rparr>))
          (stamp env event))"
  by (simp add: scored_def calculateRealTimeRisk_def Let_def split_beta)

lemma processIncomingEvent_store:
  "eventStream (fst (processIncomingEvent calcs env m event)) =
     filter (\<lambda>e. timestamp e > nowWindow env - monitoringWindow (config m))
       (eventStream m @ [stamp env event])"
  by (simp add: processIncomingEvent_scored triggerAlert_def scored_store Let_def)

lemma processIncomingEvent_users:
  "activeUsers (fst (processIncomingEvent calcs env m event)) =
     activeUsers (updateUserBehavior
          (maintainSlidingWindow (nowWindow env)
             (m\<lparr>eventStream := eventStream m @ [stamp env event],
                processedEvents := processedEvents m + 1\<rparr>))
          (stamp env event))"
  by (simp add: processIncomingEvent_scored triggerAlert_def scored_users Let_def)

lemma updateBehaviorMetrics_bet:
  "etype e = ''bet_placed'' \<Longrightarrow>
   bettingVelocity (behaviorMetrics (updateBehaviorMetrics m p e)) =
     length (filter (\<lambda>x. userId x = profileUserId p \<and> etype x = ''bet_placed'' \<and>
                          timestamp x > timestamp e - 60000) (eventStream m))"
  by (simp add: updateBehaviorMetrics_def calculateBettingVelocity_def pushAction_def Let_def)

lemma updateUserBehavior_bet:
  assumes "etype e = ''bet_placed''"
    and "\<forall>p. activeUsers m (userId e) = Some p \<longrightarrow> profileUserId p = userId e"
  shows "\<exists>p. activeUsers (updateUserBehavior m e) (userId e) = Some p \<and>
     bettingVelocity (behaviorMetrics p) =
       length (filter (\<lambda>x. userId x = userId e \<and> etype x = ''bet_placed'' \<and>
                            timestamp x > timestamp e - 60000) (eventStream m))"
proof (cases "activeUsers m (userId e)")
  case None
  then show ?thesis
    using assms(1) by (simp add: updateUserBehavior_profile updateBehaviorMetrics_bet newProfile_def)
next
  case (Some p)
  then have "profileUserId p = userId e" using assms(2) by simp
  then show ?thesis
    using assms(1) Some by (simp add: updateUserBehavior_profile updateBehaviorMetrics_bet)
qed

lemma calculateBettingVelocity_mset:
  "mset es = mset es' \<Longrightarrow>
   calculateBettingVelocity (m\<lparr>eventStream := es\<rparr>) p e =
   calculateBettingVelocity (m\<lparr>eventStream := es'\<rparr>) p e"
proof -
  assume eq: "mset es = mset es'"
  have "\<And>P. length (filter P es) = length (filter P es')"
  proof -
    fix P :: "event \<Rightarrow> bool"
    have "size (filter_mset P (mset es)) = size (filter_mset P (mset es'))"
      using eq by simp
    then show "length (filter P es) = length (filter P es')"
      by (simp only: mset_filter [symmetric] size_mset)
  qed
  then show ?thesis by (simp add: calculateBettingVelocity_def Let_def)
qed

text \<open>
  Every profile the monitor creates is stored under its own identifier, and processing
  an event keeps it so.
\<close>

lemma updateBehaviorMetrics_userId:
  "profileUserId (updateBehaviorMetrics m p e) = profileUserId p"
  by (simp add: updateBehaviorMetrics_def Let_def)

lemma maintainSlidingWindow_users:
  "activeUsers (maintainSlidingWindow now m) = activeUsers m"
  by (simp add: maintainSlidingWindow_def Let_def)

lemma processIncomingEvent_keyed:
  assumes "\<forall>u p. activeUsers m u = Some p \<longrightarrow> profileUserId p = u"
  shows "\<forall>u p. activeUsers (fst (processIncomingEvent calcs env m event)) u = Some p \<longrightarrow>
           profileUserId p = u"
proof (intro allI impI)
  fix u p
  let ?e = "stamp env event"
  let ?m = "maintainSlidingWindow (nowWindow env)
             (m\<lparr>eventStream := eventStream m @ [?e], processedEvents := processedEvents m + 1\<rparr>)"
  assume "activeUsers (fst (processIncomingEvent calcs env m event)) u = Some p"
  then have p: "activeUsers (updateUserBehavior ?m ?e) u = Some p"
    by (simp only: processIncomingEvent_users)
  show "profileUserId p = u"
  proof (cases "u = userId ?e")
    case True
    then show ?thesis
      using p assms
      by (auto simp: updateUserBehavior_profile updateBehaviorMetrics_userId maintainSlidingWindow_users newProfile_def
          split: option.splits)
  next
    case False
    then show ?thesis
      using p assms by (simp add: updateUserBehavior_others maintainSlidingWindow_users)
  qed
qed

text \<open>
  Claim C3, as the code counts. When a \<^verbatim>\<open>bet_placed\<close> event has been processed,
  the \<^verbatim>\<open>bettingVelocity\<close> of its user's profile is the number of that user's
  \<^verbatim>\<open>bet_placed\<close> events in the event store whose timestamp is greater than the
  event's timestamp minus 60000; there is no upper bound on the timestamp. The count does
  not depend on the order of the store: two stores with the same events give the same
  value. The profile stored under a user is assumed to carry that user's identifier, as
  every profile the monitor creates does.
\<close>

theorem bettingVelocity_recount:
  "(etype event = ''bet_placed'' \<and>
    (\<forall>p. activeUsers m (userId event) = Some p \<longrightarrow> profileUserId p = userId event) \<longrightarrow>
      (\<exists>p. activeUsers (fst (processIncomingEvent calcs env m event)) (userId event) = Some p \<and>
           bettingVelocity (behaviorMetrics p) =
             length (filter (\<lambda>x. userId x = userId event \<and> etype x = ''bet_placed'' \<and>
                                  timestamp x > timestamp (stamp env event) - 60000)
                       (eventStream (fst (processIncomingEvent calcs env m event)))))) \<and>
   (mset es = mset es' \<longrightarrow>
      calculateBettingVelocity (m\<lparr>eventStream := es\<rparr>) profile event =
      calculateBettingVelocity (m\<lparr>eventStream := es'\<rparr>) profile event)"
proof -
  let ?e = "stamp env event"
  let ?m = "maintainSlidingWindow (nowWindow env)
             (m\<lparr>eventStream := eventStream m @ [?e], processedEvents := processedEvents m + 1\<rparr>)"
  have e: "etype ?e = etype event" "userId ?e = userId event"
    by (simp_all add: stamp_def)
  have store: "eventStream ?m = eventStream (fst (processIncomingEvent calcs env m event))"
    by (simp add: processIncomingEvent_store maintainSlidingWindow_def Let_def)
  have recount: "\<exists>p. activeUsers (fst (processIncomingEvent calcs env m event)) (userId event) = Some p \<and>
           bettingVelocity (behaviorMetrics p) =
             length (filter (\<lambda>x. userId x = userId event \<and> etype x = ''bet_placed'' \<and>
                                  timestamp x > timestamp ?e - 60000)
                       (eventStream (fst (processIncomingEvent calcs env m event))))"
    if bet: "etype event = ''bet_placed''"
      and key: "\<forall>p. activeUsers m (userId event) = Some p \<longrightarrow> profileUserId p = userId event"
  proof -
    have "\<exists>p. activeUsers (updateUserBehavior ?m ?e) (userId ?e) = Some p \<and>
       bettingVelocity (behaviorMetrics p) =
         length (filter (\<lambda>x. userId x = userId ?e \<and> etype x = ''bet_placed'' \<and>
                              timestamp x > timestamp ?e - 60000) (eventStream ?m))"
      using bet key
      by (intro updateUserBehavior_bet) (simp_all add: e maintainSlidingWindow_def Let_def)
    then show ?thesis
      by (simp only: processIncomingEvent_users store e)
  qed
  have perm: "mset es = mset es' \<longrightarrow>
      calculateBettingVelocity (m\<lparr>eventStream := es\<rparr>) profile event =
      calculateBettingVelocity (m\<lparr>eventStream := es'\<rparr>) profile event"
    using calculateBettingVelocity_mset [of es es' m profile event] by blast
  show ?thesis
    using recount perm by blast
qed


lemma processIncomingEvent_config:
  "config (fst (processIncomingEvent calcs env m event)) = config m"
  by (simp add: processIncomingEvent_scored triggerAlert_def scored_config Let_def)

text \<open>
  A first bet without timestamp is stamped with the clock and counted once; a store of
  two bets counts the same in either order.
\<close>

theorem bettingVelocity_recount_witness:
  "bettingVelocity (behaviorMetrics (the (activeUsers
      (fst (processIncomingEvent riskCalculators sampleEnv (emptyMonitor (mkConfig None None))
              (plainEvent ''u'' ''bet_placed'' 0))) ''u''))) = 1 \<and>
   calculateBettingVelocity
     ((emptyMonitor (mkConfig None None))
        \<lparr>eventStream := [plainEvent ''u'' ''bet_placed'' 1000, plainEvent ''u'' ''bet_placed'' 2000]\<rparr>)
     sampleProfile (plainEvent ''u'' ''bet_placed'' 0) =
   calculateBettingVelocity
     ((emptyMonitor (mkConfig None None))
        \<lparr>eventStream := [plainEvent ''u'' ''bet_placed'' 2000, plainEvent ''u'' ''bet_placed'' 1000]\<rparr>)
     sampleProfile (plainEvent ''u'' ''bet_placed'' 0)"
  using bettingVelocity_recount [where event = "plainEvent ''u'' ''bet_placed'' 0"
      and m = "emptyMonitor (mkConfig None None)" and calcs = riskCalculators and env = sampleEnv
      and es = "[plainEvent ''u'' ''bet_placed'' 1000, plainEvent ''u'' ''bet_placed'' 2000]"
      and es' = "[plainEvent ''u'' ''bet_placed'' 2000, plainEvent ''u'' ''bet_placed'' 1000]"
      and profile = sampleProfile]
  by (auto simp add: processIncomingEvent_store stamp_def plainEvent_def emptyMonitor_def
      mkConfig_def sampleEnv_def)

text \<open>
  The closed window of the claim is not what is counted. A bet exactly 60 seconds before
  the processed bet is in the window but not in the count (1 against 2); and when a bet
  stamped 1000 arrives after a bet stamped 5000, the later bet is counted although it
  lies outside the window that ends at 1000 (2 against 1).
\<close>

theorem closed_window_counterexample:
  "bettingVelocity (behaviorMetrics (the (activeUsers
      (fst (processIncomingEvent riskCalculators (sampleEnv\<lparr>nowWindow := 61000\<rparr>)
         (fst (processIncomingEvent riskCalculators sampleEnv (emptyMonitor (mkConfig None None))
                 (plainEvent ''u'' ''bet_placed'' 1000)))
         (plainEvent ''u'' ''bet_placed'' 61000))) ''u''))) = 1 \<and>
   trailingWindowBets (eventStream
      (fst (processIncomingEvent riskCalculators (sampleEnv\<lparr>nowWindow := 61000\<rparr>)
         (fst (processIncomingEvent riskCalculators sampleEnv (emptyMonitor (mkConfig None None))
                 (plainEvent ''u'' ''bet_placed'' 1000)))
         (plainEvent ''u'' ''bet_placed'' 61000)))) ''u'' 61000 = 2 \<and>
   bettingVelocity (behaviorMetrics (the (activeUsers
      (fst (processIncomingEvent riskCalculators (sampleEnv\<lparr>nowWindow := 5001\<rparr>)
         (fst (processIncomingEvent riskCalculators (sampleEnv\<lparr>nowWindow := 5000\<rparr>)
                 (emptyMonitor (mkConfig None None)) (plainEvent ''u'' ''bet_placed'' 5000)))
         (plainEvent ''u'' ''bet_placed'' 1000))) ''u''))) = 2 \<and>
   trailingWindowBets (eventStream
      (fst (processIncomingEvent riskCalculators (sampleEnv\<lparr>nowWindow := 5001\<rparr>)
         (fst (processIncomingEvent riskCalculators (sampleEnv\<lparr>nowWindow := 5000\<rparr>)
                 (emptyMonitor (mkConfig None None)) (plainEvent ''u'' ''bet_placed'' 5000)))
         (plainEvent ''u'' ''bet_placed'' 1000)))) ''u'' 1000 = 1"
  by (simp add: processIncomingEvent_store processIncomingEvent_users processIncomingEvent_config
      trailingWindowBets_def updateUserBehavior_def updateBehaviorMetrics_def
      calculateBettingVelocity_def maintainSlidingWindow_def gt_opt_def newProfile_def
      stamp_def plainEvent_def emptyMonitor_def mkConfig_def sampleEnv_def Let_def)

subsection \<open>Fraud rings\<close>

lemma ipClusterLoop_positive: "0 < minSize \<Longrightarrow> ipClusterLoop minSize cs rings = rings"
  by (induction minSize cs rings rule: ipClusterLoop.induct)
     (simp_all add: analyzeClusterUsers_def)

lemma deviceClusterLoop_positive: "0 < minSize \<Longrightarrow> deviceClusterLoop minSize cs rings = rings"
  by (induction minSize cs rings rule: deviceClusterLoop.induct)
     (simp_all add: analyzeDeviceUsers_def)

lemma ipClusterLoop_no_users:
  "list_all (\<lambda>r. ringUsers r = []) rings \<Longrightarrow>
   list_all (\<lambda>r. ringUsers r = []) (ipClusterLoop minSize cs rings)"
  by (induction minSize cs rings rule: ipClusterLoop.induct)
     (simp_all add: analyzeClusterUsers_def)

lemma deviceClusterLoop_no_users:
  "list_all (\<lambda>r. ringUsers r = []) rings \<Longrightarrow>
   list_all (\<lambda>r. ringUsers r = []) (deviceClusterLoop minSize cs rings)"
  by (induction minSize cs rings rule: deviceClusterLoop.induct)
     (simp_all add: analyzeDeviceUsers_def)

text \<open>
  Claim C6, as the code reports rings. A cluster is reported only if, besides its member
  count, the number of suspicious users found in it reaches \<^verbatim>\<open>minClusterSize\<close>;
  the helpers that find them return the empty list. So for every positive
  \<^verbatim>\<open>minClusterSize\<close> no ring is returned, and a ring that is returned carries no
  users.
\<close>

theorem detectFraudRings_gate:
  "(0 < minClusterSize a \<longrightarrow> detectFraudRings a = []) \<and>
   list_all (\<lambda>r. ringUsers r = []) (detectFraudRings a)"
proof -
  have "list_all (\<lambda>r. ringUsers r = [])
          (deviceClusterLoop (minClusterSize a) (deviceFingerprints a)
             (ipClusterLoop (minClusterSize a) (ipClusters a) []))"
    by (intro deviceClusterLoop_no_users ipClusterLoop_no_users) simp
  then show ?thesis
    by (simp add: detectFraudRings_def detectBehavioralClusters_def
        ipClusterLoop_positive deviceClusterLoop_positive)
qed

text \<open>A device shared by four users, with the default minimum of 3.\<close>

theorem detectFraudRings_gate_witness:
  "detectFraudRings
     \<lparr>minClusterSize = mkMinClusterSize None, ipClusters = [],
      deviceFingerprints =
        [(''f00d'', \<lparr>fingerprint = ''f00d'', deviceUsers = [''u1'', ''u2'', ''u3'', ''u4''],
                     deviceFirstSeen = 0, deviceLastSeen = 10, suspiciousFeatures = []\<rparr>)]\<rparr> = []"
  using detectFraudRings_gate [of "\<lparr>minClusterSize = mkMinClusterSize None, ipClusters = [],
      deviceFingerprints =
        [(''f00d'', \<lparr>fingerprint = ''f00d'', deviceUsers = [''u1'', ''u2'', ''u3'', ''u4''],
                     deviceFirstSeen = 0, deviceLastSeen = 10, suspiciousFeatures = []\<rparr>)]\<rparr>"]
  by (simp add: mkMinClusterSize_def)

text \<open>
  The member count is not sufficient: an IP cluster of three users, with the default
  minimum of 3, is not in the returned list.
\<close>

theorem cluster_not_reported_counterexample:
  "detectFraudRings
     \<lparr>minClusterSize = mkMinClusterSize None,
      ipClusters =
        [(''10.0.0.1'', \<lparr>ipAddress = ''10.0.0.1'', ipUsers = [''u1'', ''u2'', ''u3''],
                         ipFirstSeen = 0, ipLastSeen = 10, suspiciousActivity = [],
                         ipRiskScore = 0\<rparr>)],
      deviceFingerprints = []\<rparr> = [] \<and>
   int (length [''u1'', ''u2'', ''u3'']) \<ge> mkMinClusterSize None"
  by (simp add: detectFraudRings_def detectBehavioralClusters_def analyzeClusterUsers_def
      mkMinClusterSize_def)

subsection \<open>Browser fingerprint\<close>





end
